theory Spec2Isabelle
  imports Complex_Main "HOL-Library.Sublist"
begin

section \<open>Python strings\<close>

text \<open>
  A Python \<open>str\<close> is a sequence of code points. The model takes \<^typ>\<open>char\<close> as a
  code point in the range U+0000 .. U+00FF, so a \<^typ>\<open>string\<close> is a Python string over that
  alphabet and \<^const>\<open>length\<close> counts what \<open>len\<close> counts. The string methods the analyser
  calls are modelled with the behaviour CPython has on this range.
\<close>

definition isspace :: "char \<Rightarrow> bool" where
  \<comment> \<open>the code points \<open>str.split()\<close> and \<open>str.strip()\<close> treat as whitespace\<close>
  "isspace c =
     (let n = (of_char c :: nat)
      in (9 \<le> n \<and> n \<le> 13) \<or> (28 \<le> n \<and> n \<le> 32) \<or> n = 133 \<or> n = 160)"

definition lower_char :: "char \<Rightarrow> char" where
  \<comment> \<open>\<open>A\<close>..\<open>Z\<close> and U+00C0..U+00DE (without the multiplication sign U+00D7) move up by 32\<close>
  "lower_char c =
     (let n = (of_char c :: nat)
      in if (65 \<le> n \<and> n \<le> 90) \<or> (192 \<le> n \<and> n \<le> 222 \<and> n \<noteq> 215)
         then char_of (n + 32) else c)"

definition upper_char :: "char \<Rightarrow> string option" where
  \<comment> \<open>\<open>a\<close>..\<open>z\<close> and U+00E0..U+00FE (without the division sign U+00F7) move down by 32;
      the sharp s U+00DF becomes the two letters \<open>SS\<close>. The capitals of U+00B5 and U+00FF
      lie beyond U+00FF, outside the alphabet of the model: there the result is \<open>None\<close>.\<close>
  "upper_char c =
     (let n = (of_char c :: nat)
      in if n = 181 \<or> n = 255 then None
         else if n = 223 then Some ''SS''
         else if (97 \<le> n \<and> n \<le> 122) \<or> (224 \<le> n \<and> n \<le> 254 \<and> n \<noteq> 247)
         then Some [char_of (n - 32)] else Some [c])"

definition py_lower :: "string \<Rightarrow> string" where
  "py_lower s = map lower_char s"

fun py_upper :: "string \<Rightarrow> string option" where
  \<comment> \<open>\<open>s.upper()\<close>, when it stays within the alphabet of the model\<close>
  "py_upper [] = Some []"
| "py_upper (c # cs) =
     (case upper_char c of
        None \<Rightarrow> None
      | Some u \<Rightarrow> (case py_upper cs of None \<Rightarrow> None | Some r \<Rightarrow> Some (u @ r)))"

text \<open>
  \<open>s.split()\<close>: the maximal runs of non-whitespace, in order. The second argument
  is the word being read.
\<close>

fun split_ws :: "string \<Rightarrow> string \<Rightarrow> string list" where
  "split_ws [] w = (if w = [] then [] else [w])"
| "split_ws (c # cs) w =
     (if isspace c then (if w = [] then split_ws cs [] else w # split_ws cs [])
      else split_ws cs (w @ [c]))"

definition py_split :: "string \<Rightarrow> string list" where
  "py_split s = split_ws s []"

text \<open>
  \<open>s.split(sep)\<close> for a separator of one character: empty segments are kept, and the
  empty string gives one empty segment.
\<close>

fun split_on :: "char \<Rightarrow> string \<Rightarrow> string \<Rightarrow> string list" where
  "split_on sep [] w = [w]"
| "split_on sep (c # cs) w =
     (if c = sep then w # split_on sep cs [] else split_on sep cs (w @ [c]))"

definition py_split_sep :: "char \<Rightarrow> string \<Rightarrow> string list" where
  "py_split_sep sep s = split_on sep s []"

definition py_strip :: "string \<Rightarrow> string" where
  "py_strip s = rev (dropWhile isspace (rev (dropWhile isspace s)))"

text \<open>\<open>sub in s\<close>: the substring test.\<close>

fun py_in :: "string \<Rightarrow> string \<Rightarrow> bool" where
  "py_in sub [] = (sub = [])"
| "py_in sub (c # cs) = (prefix sub (c # cs) \<or> py_in sub cs)"

text \<open>
  \<open>s.count(sub)\<close>: the number of non-overlapping occurrences, found from the left;
  the empty string occurs \<open>len(s) + 1\<close> times.
\<close>

function py_count :: "string \<Rightarrow> string \<Rightarrow> nat" where
  "py_count s sub =
     (if sub = [] then length s + 1
      else if s = [] then 0
      else if prefix sub s then 1 + py_count (drop (length sub) s) sub
      else py_count (tl s) sub)"
  by pat_completeness auto
termination
  by (relation "measure (\<lambda>(s, sub). length s)") auto

section \<open>Python numbers\<close>

text \<open>
  Python's \<open>int\<close> is \<^typ>\<open>int\<close>. A \<open>float\<close> is modelled by the rational it stands for:
  every score below is a multiple of one tenth (or a quotient of two small integers) of
  magnitude below 16, the comparisons against the thresholds are never within a rounding
  error of equality, and the result is rounded to one decimal, so the decimal value returned is
  the one computed here. Numerically equal values of type \<open>int\<close> and \<open>float\<close> are one value.
\<close>

datatype py_error = ZeroDivisionError

definition py_truediv :: "int \<Rightarrow> int \<Rightarrow> py_error + rat" where
  \<comment> \<open>\<open>a / b\<close> on integers\<close>
  "py_truediv a b = (if b = 0 then Inl ZeroDivisionError else Inr (of_int a / of_int b))"

definition py_round1 :: "rat \<Rightarrow> rat" where
  \<comment> \<open>\<open>round(x, 1)\<close>: to the nearest tenth, a tie to the even one\<close>
  "py_round1 x =
     (let y = x * 10; f = \<lfloor>y\<rfloor>; d = y - of_int f
      in (if d < 1 / 2 then of_int f
          else if 1 / 2 < d then of_int (f + 1)
          else if even f then of_int f else of_int (f + 1)) / 10)"

datatype pyval = PyFloat rat | PyInt int | PyStrList "string list"

type_synonym pydict = "(string \<times> pyval) list"

definition get_float :: "pydict \<Rightarrow> string \<Rightarrow> rat option" where
  "get_float d k = (case map_of d k of Some (PyFloat x) \<Rightarrow> Some x | _ \<Rightarrow> None)"

definition get_int :: "pydict \<Rightarrow> string \<Rightarrow> int option" where
  "get_int d k = (case map_of d k of Some (PyInt n) \<Rightarrow> Some n | _ \<Rightarrow> None)"

definition get_list :: "pydict \<Rightarrow> string \<Rightarrow> string list option" where
  "get_list d k = (case map_of d k of Some (PyStrList xs) \<Rightarrow> Some xs | _ \<Rightarrow> None)"

section \<open>The backend: \<open>analyze_text\<close>\<close>

text \<open>
  Each local variable of \<open>analyze_text\<close> (server.py, lines 42 to 155) is a definition of
  its own, named as in the source, as a function of the inputs it is computed from.
\<close>

definition word_count :: "string \<Rightarrow> int" where
  "word_count transcript = int (length (py_split transcript))"

definition sentence_count :: "string \<Rightarrow> int" where
  "sentence_count transcript =
     int (length [s \<leftarrow> py_split_sep (CHR ''.'') transcript. py_strip s \<noteq> []])"

definition confident_words :: "string list" where
  "confident_words = [''confident'', ''definitely'', ''certainly'', ''absolutely'', ''experienced'']"

definition hedging_words :: "string list" where
  "hedging_words = [''maybe'', ''perhaps'', ''might'', ''possibly'', ''kind of'', ''sort of'']"

definition confidence_count :: "string \<Rightarrow> int" where
  "confidence_count transcript =
     int (length [word \<leftarrow> confident_words. py_in word (py_lower transcript)])"

definition hedging_count :: "string \<Rightarrow> int" where
  "hedging_count transcript =
     int (length [word \<leftarrow> hedging_words. py_in word (py_lower transcript)])"

definition confidence_raw :: "string \<Rightarrow> rat" where
  \<comment> \<open>\<open>confidence_score\<close> after line 69, before the clamp of line 105\<close>
  "confidence_raw transcript =
     (let confidence_score = 5;
          confidence_score = confidence_score + of_int (confidence_count transcript) * (1 / 2);
          confidence_score = confidence_score - of_int (hedging_count transcript) * (1 / 2)
      in if 50 \<le> word_count transcript \<and> word_count transcript \<le> 150 then confidence_score + 2
         else if word_count transcript < 30 then confidence_score - 1
         else confidence_score)"

definition avg_words_per_sentence :: "string \<Rightarrow> py_error + rat" where
  "avg_words_per_sentence transcript =
     py_truediv (word_count transcript) (max (sentence_count transcript) 1)"

definition fillers :: "string \<Rightarrow> int" where
  "fillers transcript =
     int (py_count (py_lower transcript) ''um'') + int (py_count (py_lower transcript) ''uh'')
       + int (py_count (py_lower transcript) ''like'')"

definition structure_words :: "string list" where
  "structure_words = [''first'', ''second'', ''third'', ''finally'', ''additionally'', ''furthermore'']"

definition structure_count :: "string \<Rightarrow> int" where
  "structure_count transcript =
     int (length [word \<leftarrow> structure_words. py_in word (py_lower transcript)])"

definition clarity_raw :: "string \<Rightarrow> rat \<Rightarrow> rat" where
  \<comment> \<open>\<open>clarity_score\<close> after line 85, before the clamp of line 106; the second argument
      is the value of \<open>avg_words_per_sentence\<close>\<close>
  "clarity_raw transcript avg =
     (let clarity_score = 5;
          clarity_score = (if 12 \<le> avg \<and> avg \<le> 22 then clarity_score + 2 else clarity_score);
          clarity_score = clarity_score - min (of_int (fillers transcript) * (3 / 10)) 3
      in clarity_score + min (of_int (structure_count transcript) * (1 / 2)) 2)"

definition common_words :: "string set" where
  "common_words = {''a'', ''an'', ''the'', ''is'', ''are'', ''was'', ''were'', ''in'', ''on'',
     ''at'', ''to'', ''for''}"

definition overlap :: "string \<Rightarrow> string \<Rightarrow> int" where
  "overlap transcript question =
     (let question_words = set (py_split (py_lower question));
          transcript_words = set (py_split (py_lower transcript));
          question_words = question_words - common_words
      in int (card (question_words \<inter> transcript_words)))"

definition example_indicators :: "string list" where
  "example_indicators =
     [''example'', ''instance'', ''experience'', ''project'', ''time when'', ''situation'']"

definition relevance_raw :: "string \<Rightarrow> string \<Rightarrow> rat" where
  \<comment> \<open>\<open>relevance_score\<close> after line 102, before the clamp of line 107\<close>
  "relevance_raw transcript question =
     (let relevance_score = 5;
          relevance_score = relevance_score + min (of_int (overlap transcript question) * (7 / 10)) 3
      in if list_ex (\<lambda>indicator. py_in indicator (py_lower transcript)) example_indicators
         then relevance_score + 3 / 2 else relevance_score)"

definition clamp :: "rat \<Rightarrow> rat" where
  \<comment> \<open>\<open>min(max(x, 0), 10)\<close>\<close>
  "clamp x = min (max x 0) 10"

definition star_words :: "string list" where
  "star_words = [''situation'', ''task'', ''action'', ''result'']"

definition feedback_of :: "string \<Rightarrow> rat \<Rightarrow> rat \<Rightarrow> rat \<Rightarrow> string list" where
  \<comment> \<open>lines 110 to 146: the messages in the order they are appended; the arguments are
      the transcript, the clamped confidence and relevance scores and the average\<close>
  "feedback_of transcript confidence_score relevance_score avg =
     (let feedback =
        (if confidence_score < 6
         then [''Use more assertive language and reduce hedging words (maybe, possibly, etc.)'']
         else if 8 < confidence_score then [''Great confidence in your delivery!''] else [])
        @ (if 5 < fillers transcript
           then [''Reduce filler words (um, uh, like) for better clarity''] else [])
        @ (if 25 < avg
           then [''Try breaking down long sentences into shorter ones for better clarity'']
           else if avg < 10 then [''Consider expanding your sentences with more details'']
           else [])
        @ (if structure_count transcript = 0
           then [''Use transitional phrases (first, second, additionally) to structure your response'']
           else [])
        @ (if relevance_score < 6
           then [''Focus more on directly answering the question asked''] else [])
        @ (if word_count transcript < 50
           then [''Provide more detailed responses with specific examples'']
           else if 200 < word_count transcript
           then [''Keep responses more concise and focused''] else [])
        @ (if \<not> list_ex (\<lambda>word. py_in word (py_lower transcript)) star_words
           then [''Consider using the STAR method: Situation, Task, Action, Result'']
           else [])
      in if feedback = [] then [''Excellent response! Keep up the good work.''] else feedback)"

definition analyze_text :: "string \<Rightarrow> string \<Rightarrow> py_error + pydict" where
  "analyze_text transcript question =
     (case avg_words_per_sentence transcript of
        Inl e \<Rightarrow> Inl e
      | Inr avg \<Rightarrow>
          (let confidence_score = clamp (confidence_raw transcript);
               clarity_score = clamp (clarity_raw transcript avg);
               relevance_score = clamp (relevance_raw transcript question);
               feedback = feedback_of transcript confidence_score relevance_score avg
           in Inr [(''confidence_score'', PyFloat (py_round1 confidence_score)),
                   (''clarity_score'', PyFloat (py_round1 clarity_score)),
                   (''relevance_score'', PyFloat (py_round1 relevance_score)),
                   (''word_count'', PyInt (word_count transcript)),
                   (''sentence_count'', PyInt (sentence_count transcript)),
                   (''feedback'', PyStrList feedback)]))"

definition score_fields :: "py_error + pydict \<Rightarrow> (rat option \<times> rat option \<times> rat option) option" where
  \<comment> \<open>the three score fields of a result, for comparing two calls\<close>
  "score_fields r =
     (case r of
        Inl e \<Rightarrow> None
      | Inr d \<Rightarrow> Some (get_float d ''confidence_score'', get_float d ''clarity_score'',
                       get_float d ''relevance_score''))"

section \<open>The frontend: \<open>mock_analysis\<close>\<close>

text \<open>
  \<open>mock_analysis\<close> (app.py, lines 81 to 109). Its divisor is the constant 15, so the
  division cannot fail. Each of its messages starts with a pictograph beyond U+00FF
  (U+1F4A1, U+2705 or U+1F3AF) and a space; the model keeps the text after them.
\<close>

definition mock_analysis :: "string \<Rightarrow> string \<Rightarrow> pydict" where
  "mock_analysis transcript question =
     (let confidence_score = min 10 (max 5 (of_int (word_count transcript) / 15));
          clarity_score =
            min 10 (7 + (if 2 < length (py_split_sep (CHR ''.'') transcript) then 1 else 0));
          relevance_score =
            min 10 (6 + (if list_ex (\<lambda>word. py_in word (py_lower transcript))
                              (py_split (py_lower question)) then 2 else 0));
          feedback =
            (if word_count transcript < 30
             then [''Try to provide more detailed responses (aim for 50-150 words)'']
             else if 200 < word_count transcript
             then [''Consider being more concise in your answers'']
             else [''Good response length!''])
            @ [''Good structure and delivery'',
               ''Consider using the STAR method (Situation, Task, Action, Result)'',
               ''Practice maintaining confident tone throughout'']
      in [(''confidence_score'', PyFloat (py_round1 confidence_score)),
          (''clarity_score'', PyFloat (py_round1 clarity_score)),
          (''relevance_score'', PyFloat (py_round1 relevance_score)),
          (''word_count'', PyInt (word_count transcript)),
          (''feedback'', PyStrList feedback)])"

section \<open>What the specification calls tokens and segments\<close>

text \<open>
  A whitespace-delimited token starts at every position that holds a non-whitespace
  character and is the first of the string or follows a whitespace character.
\<close>

definition token_start :: "string \<Rightarrow> nat \<Rightarrow> bool" where
  "token_start s i =
     (i < length s \<and> \<not> isspace (s ! i) \<and> (i = 0 \<or> isspace (s ! (i - 1))))"

text \<open>
  The segments of a string split on a character are the one non-empty list of strings
  free of that character which, joined by it, give the string back.
\<close>

fun join_sep :: "char \<Rightarrow> string list \<Rightarrow> string" where
  "join_sep sep [] = []"
| "join_sep sep [x] = x"
| "join_sep sep (x # y # ys) = x @ sep # join_sep sep (y # ys)"

definition period_segments :: "string \<Rightarrow> string list \<Rightarrow> bool" where
  "period_segments s segs =
     (segs \<noteq> [] \<and> list_all (\<lambda>x. CHR ''.'' \<notin> set x) segs \<and> join_sep (CHR ''.'') segs = s)"

section \<open>Arithmetic of the scores\<close>

lemma max_sentence_count_pos: "0 < max (sentence_count t) 1"
  by simp

lemma avg_words_per_sentence_eq:
  "avg_words_per_sentence t = Inr (of_int (word_count t) / of_int (max (sentence_count t) 1))"
  unfolding avg_words_per_sentence_def py_truediv_def
  using max_sentence_count_pos [of t] by simp

lemma py_round1_tenth: "py_round1 (of_int k / 10) = of_int k / 10"
  by (simp add: py_round1_def Let_def)

lemma clamp_id: "0 \<le> x \<Longrightarrow> x \<le> 10 \<Longrightarrow> clamp x = x"
  by (simp add: clamp_def)

lemma clamp_range: "0 \<le> clamp x \<and> clamp x \<le> 10"
  by (simp add: clamp_def)

lemma confidence_count_bounds: "0 \<le> confidence_count t \<and> confidence_count t \<le> 5"
proof -
  have "length [word \<leftarrow> confident_words. py_in word (py_lower t)] \<le> length confident_words"
    by (rule length_filter_le)
  then show ?thesis by (simp add: confidence_count_def confident_words_def)
qed

lemma hedging_count_bounds: "0 \<le> hedging_count t \<and> hedging_count t \<le> 6"
proof -
  have "length [word \<leftarrow> hedging_words. py_in word (py_lower t)] \<le> length hedging_words"
    by (rule length_filter_le)
  then show ?thesis by (simp add: hedging_count_def hedging_words_def)
qed

lemma structure_count_bounds: "0 \<le> structure_count t \<and> structure_count t \<le> 6"
proof -
  have "length [word \<leftarrow> structure_words. py_in word (py_lower t)] \<le> length structure_words"
    by (rule length_filter_le)
  then show ?thesis by (simp add: structure_count_def structure_words_def)
qed

lemma fillers_nonneg: "0 \<le> fillers t"
  by (simp add: fillers_def)

lemma overlap_nonneg: "0 \<le> overlap t q"
  by (simp add: overlap_def Let_def)

lemma confidence_raw_bounds: "1 \<le> confidence_raw t \<and> confidence_raw t \<le> 19 / 2"
proof -
  have c: "(0::rat) \<le> of_int (confidence_count t)" "(of_int (confidence_count t) :: rat) \<le> 5"
    using confidence_count_bounds [of t] by (simp_all add: of_int_le_numeral_iff [symmetric] del: of_int_le_numeral_iff)
  have h: "(0::rat) \<le> of_int (hedging_count t)" "(of_int (hedging_count t) :: rat) \<le> 6"
    using hedging_count_bounds [of t] by (simp_all add: of_int_le_numeral_iff [symmetric] del: of_int_le_numeral_iff)
  show ?thesis
    unfolding confidence_raw_def Let_def using c h by (simp split: if_splits)
qed

lemma clarity_raw_bounds: "2 \<le> clarity_raw t avg \<and> clarity_raw t avg \<le> 9"
proof -
  have f: "(0::rat) \<le> of_int (fillers t)"
    using fillers_nonneg [of t] by simp
  have s: "(0::rat) \<le> of_int (structure_count t)"
    using structure_count_bounds [of t] by simp
  show ?thesis
    unfolding clarity_raw_def Let_def using f s by (auto simp: min_def)
qed

lemma relevance_raw_bounds: "5 \<le> relevance_raw t q \<and> relevance_raw t q \<le> 19 / 2"
proof -
  have f: "(0::rat) \<le> of_int (overlap t q)"
    using overlap_nonneg [of t q] by simp
  show ?thesis
    unfolding relevance_raw_def Let_def using f by (auto simp: min_def)
qed

lemma confidence_raw_tenth: "\<exists>k::int. confidence_raw t = of_int k / 10"
proof -
  let ?b = "50 + 5 * confidence_count t - 5 * hedging_count t"
  have "confidence_raw t = of_int (if 50 \<le> word_count t \<and> word_count t \<le> 150 then ?b + 20
      else if word_count t < 30 then ?b - 10 else ?b) / 10"
    by (simp add: confidence_raw_def Let_def field_simps)
  then show ?thesis by blast
qed

lemma clarity_raw_tenth: "\<exists>k::int. clarity_raw t avg = of_int k / 10"
proof -
  have f: "min (of_int (fillers t) * (3 / 10)) (3::rat) = of_int (min (3 * fillers t) 30) / 10"
    by (simp add: min_def)
  have s: "min (of_int (structure_count t) * (1 / 2)) (2::rat) = of_int (min (5 * structure_count t) 20) / 10"
    by (simp add: min_def)
  have "clarity_raw t avg = of_int ((if 12 \<le> avg \<and> avg \<le> 22 then 70 else 50)
     - min (3 * fillers t) 30 + min (5 * structure_count t) 20) / 10"
    unfolding clarity_raw_def Let_def f s by (simp add: field_simps)
  then show ?thesis by blast
qed

lemma relevance_raw_tenth: "\<exists>k::int. relevance_raw t q = of_int k / 10"
proof -
  have f: "min (of_int (overlap t q) * (7 / 10)) (3::rat) = of_int (min (7 * overlap t q) 30) / 10"
    by (simp add: min_def)
  have "relevance_raw t q = of_int (50 + min (7 * overlap t q) 30
     + (if list_ex (\<lambda>indicator. py_in indicator (py_lower t)) example_indicators then 15 else 0)) / 10"
    unfolding relevance_raw_def Let_def f by (simp add: field_simps)
  then show ?thesis by blast
qed

section \<open>Splitting and searching strings\<close>

lemma py_in_sublist: "py_in sub s = sublist sub s"
  by (induction s) (simp_all add: sublist_Cons_right)

lemma length_split_ws:
  "length (split_ws s w) =
     length [i \<leftarrow> [0..<length s]. \<not> isspace (s ! i) \<and> (if i = 0 then w = [] else isspace (s ! (i - 1)))]
       + (if w = [] then 0 else 1)"
proof (induction s arbitrary: w)
  case Nil
  show ?case by simp
next
  case (Cons c cs)
  have idx: "[0..<length (c # cs)] = 0 # map Suc [0..<length cs]"
    by (simp add: upt_conv_Cons map_Suc_upt del: upt_Suc)
  have tl: "[i \<leftarrow> map Suc [0..<length cs]. \<not> isspace ((c # cs) ! i)
               \<and> (if i = 0 then w = [] else isspace ((c # cs) ! (i - 1)))]
          = map Suc [j \<leftarrow> [0..<length cs]. \<not> isspace (cs ! j)
               \<and> (if j = 0 then isspace c else isspace (cs ! (j - 1)))]"
    unfolding filter_map
    by (rule arg_cong [where f = "map Suc"], rule filter_cong) (auto simp: nth_Cons')
  show ?case
  proof (cases "isspace c")
    case True
    then show ?thesis
      unfolding idx using Cons.IH [of "[]"] tl by simp
  next
    case False
    then show ?thesis
      unfolding idx using Cons.IH [of "w @ [c]"] tl by simp
  qed
qed

lemma length_py_split: "length (py_split s) = length (filter (token_start s) [0..<length s])"
proof -
  have "filter (token_start s) [0..<length s]
      = [i \<leftarrow> [0..<length s]. \<not> isspace (s ! i) \<and> (if i = 0 then ([]::string) = [] else isspace (s ! (i - 1)))]"
    by (rule filter_cong) (auto simp: token_start_def)
  then show ?thesis
    by (simp add: py_split_def length_split_ws)
qed

lemma split_on_append:
  "sep \<notin> set x \<Longrightarrow> split_on sep (x @ s) w = split_on sep s (w @ x)"
  by (induction x arbitrary: w) auto

lemma split_on_join:
  "segs \<noteq> [] \<Longrightarrow> list_all (\<lambda>x. sep \<notin> set x) segs \<Longrightarrow>
     split_on sep (join_sep sep segs) w = (w @ hd segs) # tl segs"
proof (induction sep segs arbitrary: w rule: join_sep.induct)
  case (1 sep)
  then show ?case by simp
next
  case (2 sep x)
  then show ?case
    using split_on_append [of sep x "[]" w] by simp
next
  case (3 sep x y ys)
  then show ?case
    using split_on_append [of sep x "sep # join_sep sep (y # ys)" w] by simp
qed

lemma split_on_nonempty: "split_on sep s w \<noteq> []"
  by (induction s arbitrary: w) auto

lemma split_on_free:
  "sep \<notin> set w \<Longrightarrow> list_all (\<lambda>x. sep \<notin> set x) (split_on sep s w)"
  by (induction s arbitrary: w) auto

lemma join_split_on: "join_sep sep (split_on sep s w) = w @ s"
proof (induction s arbitrary: w)
  case Nil
  show ?case by simp
next
  case (Cons c cs)
  obtain y ys where ys: "split_on sep cs [] = y # ys"
    using split_on_nonempty [of sep cs "[]"] by (cases "split_on sep cs []") auto
  show ?case
    using Cons.IH [of "[]"] Cons.IH [of "w @ [c]"] ys by simp
qed

lemma period_segments_iff:
  "period_segments s segs \<longleftrightarrow> segs = py_split_sep (CHR ''.'') s"
proof
  assume "period_segments s segs"
  then show "segs = py_split_sep (CHR ''.'') s"
    using split_on_join [of segs "CHR ''.''" "[]"]
    by (auto simp: period_segments_def py_split_sep_def)
next
  assume "segs = py_split_sep (CHR ''.'') s"
  then show "period_segments s segs"
    using split_on_nonempty [of "CHR ''.''" s "[]"] split_on_free [of "CHR ''.''" "[]" s]
      join_split_on [of "CHR ''.''" s "[]"]
    by (simp add: period_segments_def py_split_sep_def)
qed

lemma dropWhile_keeps_witness:
  "(\<exists>x\<in>set (dropWhile P xs). \<not> P x) \<longleftrightarrow> (\<exists>x\<in>set xs. \<not> P x)"
  by (induction xs) auto

lemma py_strip_nonempty: "py_strip s \<noteq> [] \<longleftrightarrow> list_ex (\<lambda>c. \<not> isspace c) s"
proof -
  have "py_strip s \<noteq> [] \<longleftrightarrow> (\<exists>x\<in>set (rev (dropWhile isspace s)). \<not> isspace x)"
    by (simp add: py_strip_def dropWhile_eq_Nil_conv del: set_rev)
  also have "\<dots> \<longleftrightarrow> (\<exists>x\<in>set s. \<not> isspace x)"
    by (simp add: dropWhile_keeps_witness)
  finally show ?thesis
    by (simp add: list_ex_iff)
qed

section \<open>The result of \<open>analyze_text\<close>\<close>

lemma analyze_text_eq:
  "analyze_text t q =
     Inr [(''confidence_score'', PyFloat (py_round1 (clamp (confidence_raw t)))),
          (''clarity_score'', PyFloat (py_round1 (clamp (clarity_raw t
              (of_int (word_count t) / of_int (max (sentence_count t) 1)))))),
          (''relevance_score'', PyFloat (py_round1 (clamp (relevance_raw t q)))),
          (''word_count'', PyInt (word_count t)),
          (''sentence_count'', PyInt (sentence_count t)),
          (''feedback'', PyStrList (feedback_of t (clamp (confidence_raw t))
              (clamp (relevance_raw t q))
              (of_int (word_count t) / of_int (max (sentence_count t) 1))))]"
  by (simp add: analyze_text_def avg_words_per_sentence_eq Let_def)

lemma py_round1_is_tenth: "\<exists>k::int. py_round1 x = of_int k / 10"
proof -
  let ?y = "x * 10"
  let ?d = "?y - of_int \<lfloor>?y\<rfloor>"
  have "py_round1 x = of_int (if ?d < 1 / 2 then \<lfloor>?y\<rfloor> else if 1 / 2 < ?d then \<lfloor>?y\<rfloor> + 1
      else if even \<lfloor>?y\<rfloor> then \<lfloor>?y\<rfloor> else \<lfloor>?y\<rfloor> + 1) / 10"
    by (simp add: py_round1_def Let_def)
  then show ?thesis by blast
qed

lemma py_round1_range:
  assumes "0 \<le> x" "x \<le> 10"
  shows "0 \<le> py_round1 x \<and> py_round1 x \<le> 10"
proof -
  define f where "f = \<lfloor>x * 10\<rfloor>"
  have y: "0 \<le> x * 10" "x * 10 \<le> 100" using assms by simp_all
  have f0: "0 \<le> f" unfolding f_def using y(1) by simp
  have "f \<le> \<lfloor>100::rat\<rfloor>" unfolding f_def using y(2) by (rule floor_mono)
  then have f100: "f \<le> 100" by simp
  have fle: "of_int f \<le> x * 10" unfolding f_def by simp
  have lo: "(0::rat) \<le> of_int f" using f0 by simp
  have hi: "(of_int f :: rat) \<le> 100" using fle y(2) by linarith
  have hi1: "(of_int f :: rat) + 1 \<le> 100" if "1 / 2 \<le> x * 10 - of_int f"
  proof -
    have "f \<noteq> 100"
    proof
      assume "f = 100"
      then have "(of_int f :: rat) = 100" by simp
      with that y(2) show False by linarith
    qed
    with f100 have "f + 1 \<le> 100" by linarith
    then have "(of_int (f + 1) :: rat) \<le> of_int 100" by (simp only: of_int_le_iff)
    then show ?thesis by simp
  qed
  have "py_round1 x = (if x * 10 - of_int f < 1 / 2 then of_int f
      else if 1 / 2 < x * 10 - of_int f then of_int f + 1
      else if even f then of_int f else of_int f + 1) / 10"
    by (simp add: py_round1_def Let_def f_def)
  then show ?thesis
    using lo hi hi1 by (auto split: if_splits)
qed

lemma feedback_of_nonempty: "feedback_of t c r avg \<noteq> []"
  by (simp add: feedback_of_def Let_def)

section \<open>The claims\<close>

text \<open>
  C1. For every transcript and question \<open>analyze_text\<close> returns a result whose fields
  \<open>confidence_score\<close>, \<open>clarity_score\<close> and \<open>relevance_score\<close> each lie in the closed
  interval from 0 to 10 and each have one decimal place: ten times the score is an integer.
\<close>

theorem analyze_text_scores_in_range:
  "\<exists>d c l r. analyze_text transcript question = Inr d
     \<and> get_float d ''confidence_score'' = Some c
     \<and> get_float d ''clarity_score'' = Some l
     \<and> get_float d ''relevance_score'' = Some r
     \<and> 0 \<le> c \<and> c \<le> 10 \<and> 0 \<le> l \<and> l \<le> 10 \<and> 0 \<le> r \<and> r \<le> 10
     \<and> (\<exists>k::int. c = of_int k / 10) \<and> (\<exists>k::int. l = of_int k / 10)
     \<and> (\<exists>k::int. r = of_int k / 10)"
proof -
  let ?avg = "of_int (word_count transcript) / of_int (max (sentence_count transcript) 1) :: rat"
  let ?c = "py_round1 (clamp (confidence_raw transcript))"
  let ?l = "py_round1 (clamp (clarity_raw transcript ?avg))"
  let ?r = "py_round1 (clamp (relevance_raw transcript question))"
  have c: "0 \<le> ?c \<and> ?c \<le> 10" using clamp_range by (intro py_round1_range) auto
  have l: "0 \<le> ?l \<and> ?l \<le> 10" using clamp_range by (intro py_round1_range) auto
  have r: "0 \<le> ?r \<and> ?r \<le> 10" using clamp_range by (intro py_round1_range) auto
  have fields: "get_float (projr (analyze_text transcript question)) ''confidence_score'' = Some ?c"
    "get_float (projr (analyze_text transcript question)) ''clarity_score'' = Some ?l"
    "get_float (projr (analyze_text transcript question)) ''relevance_score'' = Some ?r"
    by (simp_all add: analyze_text_eq get_float_def)
  have "analyze_text transcript question = Inr (projr (analyze_text transcript question))"
    by (simp add: analyze_text_eq)
  with fields c l r py_round1_is_tenth [of "clamp (confidence_raw transcript)"]
    py_round1_is_tenth [of "clamp (clarity_raw transcript ?avg)"]
    py_round1_is_tenth [of "clamp (relevance_raw transcript question)"]
  show ?thesis by blast
qed

text \<open>
  C2. \<open>analyze_text\<close> is total: for every pair of strings, the empty ones included, it
  returns (\<open>Inr\<close>) a dictionary with the six fields in their order and raises nothing. The
  one operation that can raise is the division of line 72; its divisor
  \<open>max(sentence_count, 1)\<close> is positive, so the quotient is always defined.
\<close>

theorem analyze_text_total:
  "\<exists>c l r f. analyze_text transcript question =
       Inr [(''confidence_score'', PyFloat c), (''clarity_score'', PyFloat l),
            (''relevance_score'', PyFloat r), (''word_count'', PyInt (word_count transcript)),
            (''sentence_count'', PyInt (sentence_count transcript)),
            (''feedback'', PyStrList f)]
     \<and> 0 < max (sentence_count transcript) 1
     \<and> avg_words_per_sentence transcript =
         Inr (of_int (word_count transcript) / of_int (max (sentence_count transcript) 1))"
  using analyze_text_eq [of transcript question] avg_words_per_sentence_eq [of transcript]
    max_sentence_count_pos [of transcript]
  by blast

lemma sentence_count_segments:
  assumes "period_segments t segs"
  shows "sentence_count t = int (length (filter (list_ex (\<lambda>c. \<not> isspace c)) segs))"
proof -
  have "segs = py_split_sep (CHR ''.'') t"
    using assms by (simp add: period_segments_iff)
  then show ?thesis
    by (simp add: sentence_count_def py_strip_nonempty)
qed

text \<open>
  C3. The field \<open>word_count\<close> is the number of whitespace-delimited tokens of the
  transcript, counted as the positions where a token starts. The field \<open>sentence_count\<close> is
  the number of segments of the transcript split on the period that hold a non-whitespace
  character, that is, that are non-empty once stripped; the segments exist and the count is
  the same for any list of period-free strings that joined by periods give the transcript.
  Both fields hold these integers as they are.
\<close>

theorem analyze_text_counts:
  "\<exists>d. analyze_text transcript question = Inr d
     \<and> get_int d ''word_count''
         = Some (int (length (filter (token_start transcript) [0..<length transcript])))
     \<and> (\<exists>segs. period_segments transcript segs)
     \<and> (\<forall>segs. period_segments transcript segs \<longrightarrow>
           get_int d ''sentence_count''
             = Some (int (length (filter (list_ex (\<lambda>c. \<not> isspace c)) segs))))"
proof -
  let ?d = "projr (analyze_text transcript question)"
  have d: "analyze_text transcript question = Inr ?d"
    by (simp add: analyze_text_eq)
  have w: "get_int ?d ''word_count''
      = Some (int (length (filter (token_start transcript) [0..<length transcript])))"
    by (simp add: analyze_text_eq get_int_def word_count_def length_py_split)
  have e: "period_segments transcript (py_split_sep (CHR ''.'') transcript)"
    by (simp add: period_segments_iff)
  have s: "get_int ?d ''sentence_count'' = Some (sentence_count transcript)"
    by (simp add: analyze_text_eq get_int_def)
  have u: "\<forall>segs. period_segments transcript segs \<longrightarrow>
      get_int ?d ''sentence_count''
        = Some (int (length (filter (list_ex (\<lambda>c. \<not> isspace c)) segs)))"
    using s sentence_count_segments [of transcript] by simp
  have "\<exists>segs. period_segments transcript segs"
    using e by (rule exI)
  with d w u show ?thesis
    by (intro exI [of _ ?d] conjI)
qed

text \<open>
  A transcript of four words in two sentences, with a doubled space and a final period: the
  segments are the two sentences and the empty string after the last period.
\<close>

theorem analyze_text_counts_witness:
  "\<exists>d. analyze_text ''Hi  there. I am.'' ''Who?'' = Inr d
     \<and> get_int d ''word_count'' = Some 4 \<and> get_int d ''sentence_count'' = Some 2
     \<and> period_segments ''Hi  there. I am.'' [''Hi  there'', '' I am'', '''']"
proof -
  have p: "period_segments ''Hi  there. I am.'' [''Hi  there'', '' I am'', '''']"
    by (simp add: period_segments_def)
  have n: "length (filter (list_ex (\<lambda>c. \<not> isspace c)) [''Hi  there'', '' I am'', '''']) = 2"
    by (simp add: isspace_def)
  have t: "length (filter (token_start ''Hi  there. I am.'') [0..<length ''Hi  there. I am.'']) = 4"
    by (simp add: token_start_def isspace_def upt_rec)
  from analyze_text_counts [of "''Hi  there. I am.''" "''Who?''"] p n t
  show ?thesis by fastforce
qed

text \<open>
  C10. The clamp to the interval from 0 to 10 never changes a value: before it, the
  confidence score lies between 1 and 9.5, the clarity score between 2 and 9 and the relevance
  score between 5 and 9.5. The fields of the result are these same values, so the relevance
  score is never below 5 and no score is 0 or 10.
\<close>

theorem raw_scores_within_clamp:
  "1 \<le> confidence_raw transcript \<and> confidence_raw transcript \<le> 19 / 2
   \<and> 5 \<le> relevance_raw transcript question \<and> relevance_raw transcript question \<le> 19 / 2
   \<and> clamp (confidence_raw transcript) = confidence_raw transcript
   \<and> clamp (relevance_raw transcript question) = relevance_raw transcript question
   \<and> (\<exists>avg. avg_words_per_sentence transcript = Inr avg
        \<and> 2 \<le> clarity_raw transcript avg \<and> clarity_raw transcript avg \<le> 9
        \<and> clamp (clarity_raw transcript avg) = clarity_raw transcript avg
        \<and> (\<exists>d. analyze_text transcript question = Inr d
             \<and> get_float d ''confidence_score'' = Some (confidence_raw transcript)
             \<and> get_float d ''clarity_score'' = Some (clarity_raw transcript avg)
             \<and> get_float d ''relevance_score'' = Some (relevance_raw transcript question)))"
proof -
  let ?avg = "of_int (word_count transcript) / of_int (max (sentence_count transcript) 1) :: rat"
  note c = confidence_raw_bounds [of transcript]
  note l = clarity_raw_bounds [of transcript ?avg]
  note r = relevance_raw_bounds [of transcript question]
  have cc: "clamp (confidence_raw transcript) = confidence_raw transcript"
    using c by (intro clamp_id) auto
  have cl: "clamp (clarity_raw transcript ?avg) = clarity_raw transcript ?avg"
    using l by (intro clamp_id) auto
  have cr: "clamp (relevance_raw transcript question) = relevance_raw transcript question"
    using r by (intro clamp_id) auto
  have rc: "py_round1 (confidence_raw transcript) = confidence_raw transcript"
    using confidence_raw_tenth [of transcript] by (metis py_round1_tenth)
  have rl: "py_round1 (clarity_raw transcript ?avg) = clarity_raw transcript ?avg"
    using clarity_raw_tenth [of transcript ?avg] by (metis py_round1_tenth)
  have rr: "py_round1 (relevance_raw transcript question) = relevance_raw transcript question"
    using relevance_raw_tenth [of transcript question] by (metis py_round1_tenth)
  let ?d = "projr (analyze_text transcript question)"
  have d: "analyze_text transcript question = Inr ?d"
    by (simp add: analyze_text_eq)
  have g: "get_float ?d ''confidence_score'' = Some (confidence_raw transcript)"
    "get_float ?d ''clarity_score'' = Some (clarity_raw transcript ?avg)"
    "get_float ?d ''relevance_score'' = Some (relevance_raw transcript question)"
    by (simp_all add: analyze_text_eq get_float_def cc cl cr rc rl rr)
  have "\<exists>d. analyze_text transcript question = Inr d
      \<and> get_float d ''confidence_score'' = Some (confidence_raw transcript)
      \<and> get_float d ''clarity_score'' = Some (clarity_raw transcript ?avg)
      \<and> get_float d ''relevance_score'' = Some (relevance_raw transcript question)"
    using d g by (intro exI [of _ ?d] conjI)
  with l cl avg_words_per_sentence_eq [of transcript]
  have "\<exists>avg. avg_words_per_sentence transcript = Inr avg
      \<and> 2 \<le> clarity_raw transcript avg \<and> clarity_raw transcript avg \<le> 9
      \<and> clamp (clarity_raw transcript avg) = clarity_raw transcript avg
      \<and> (\<exists>d. analyze_text transcript question = Inr d
           \<and> get_float d ''confidence_score'' = Some (confidence_raw transcript)
           \<and> get_float d ''clarity_score'' = Some (clarity_raw transcript avg)
           \<and> get_float d ''relevance_score'' = Some (relevance_raw transcript question))"
    by (intro exI [of _ ?avg] conjI) simp_all
  with c r cc cr show ?thesis
    by (intro conjI) simp_all
qed

lemma count_present:
  "distinct ws \<Longrightarrow>
     int (length [word \<leftarrow> ws. py_in word s]) = int (card {w \<in> set ws. sublist w s})"
proof -
  assume "distinct ws"
  then have "length [word \<leftarrow> ws. sublist word s] = card ({w. sublist w s} \<inter> set ws)"
    by (rule distinct_length_filter)
  moreover have "{w. sublist w s} \<inter> set ws = {w \<in> set ws. sublist w s}"
    by blast
  ultimately show ?thesis
    by (simp add: py_in_sublist)
qed

lemma confidence_count_card:
  "confidence_count t =
     int (card {w \<in> {''confident'', ''definitely'', ''certainly'', ''absolutely'', ''experienced''}.
                  sublist w (py_lower t)})"
proof -
  have "distinct confident_words"
    by (simp add: confident_words_def)
  then show ?thesis
    unfolding confidence_count_def
    by (simp only: count_present) (simp add: confident_words_def)
qed

lemma hedging_count_card:
  "hedging_count t =
     int (card {w \<in> {''maybe'', ''perhaps'', ''might'', ''possibly'', ''kind of'', ''sort of''}.
                  sublist w (py_lower t)})"
proof -
  have "distinct hedging_words"
    by (simp add: hedging_words_def)
  then show ?thesis
    unfolding hedging_count_def
    by (simp only: count_present) (simp add: hedging_words_def)
qed

text \<open>
  C4. Before the clamp the confidence score is 5, plus one half for each of the five
  confident words that occurs as a substring of the lowercased transcript (once per word,
  however often it occurs), minus one half for each of the six hedging terms that occurs as
  a substring of it, plus 2 when the word count lies between 50 and 150, minus 1 when it is
  below 30 and nothing otherwise; the field of the result is this value, clamped and rounded.
\<close>

theorem confidence_before_clamp:
  "confidence_raw transcript =
     5 + of_nat (card {w \<in> {''confident'', ''definitely'', ''certainly'', ''absolutely'',
                             ''experienced''}. sublist w (py_lower transcript)}) * (1 / 2)
       - of_nat (card {w \<in> {''maybe'', ''perhaps'', ''might'', ''possibly'', ''kind of'',
                             ''sort of''}. sublist w (py_lower transcript)}) * (1 / 2)
       + (if 50 \<le> word_count transcript \<and> word_count transcript \<le> 150 then 2
          else if word_count transcript < 30 then - 1 else 0)
   \<and> (\<exists>d. analyze_text transcript question = Inr d
        \<and> get_float d ''confidence_score'' = Some (py_round1 (clamp (confidence_raw transcript))))"
proof -
  have "confidence_raw transcript =
     5 + of_int (confidence_count transcript) * (1 / 2)
       - of_int (hedging_count transcript) * (1 / 2)
       + (if 50 \<le> word_count transcript \<and> word_count transcript \<le> 150 then 2
          else if word_count transcript < 30 then - 1 else 0)"
    by (simp add: confidence_raw_def Let_def)
  then have formula: "confidence_raw transcript =
     5 + of_nat (card {w \<in> {''confident'', ''definitely'', ''certainly'', ''absolutely'',
                             ''experienced''}. sublist w (py_lower transcript)}) * (1 / 2)
       - of_nat (card {w \<in> {''maybe'', ''perhaps'', ''might'', ''possibly'', ''kind of'',
                             ''sort of''}. sublist w (py_lower transcript)}) * (1 / 2)
       + (if 50 \<le> word_count transcript \<and> word_count transcript \<le> 150 then 2
          else if word_count transcript < 30 then - 1 else 0)"
    by (simp only: confidence_count_card hedging_count_card of_int_of_nat_eq)
  let ?d = "projr (analyze_text transcript question)"
  have "analyze_text transcript question = Inr ?d"
    by (simp add: analyze_text_eq)
  moreover have "get_float ?d ''confidence_score''
      = Some (py_round1 (clamp (confidence_raw transcript)))"
    by (simp add: analyze_text_eq get_float_def)
  ultimately have "\<exists>d. analyze_text transcript question = Inr d
        \<and> get_float d ''confidence_score'' = Some (py_round1 (clamp (confidence_raw transcript)))"
    by (intro exI [of _ ?d] conjI)
  with formula show ?thesis
    by (rule conjI)
qed

text \<open>
  C5. Before the clamp the relevance score is 5, plus the smaller of 3 and seven tenths of
  the overlap, plus 1.5 when one of the six example indicators occurs as a substring of the
  lowercased transcript. The overlap is the number of words that are both in the set of
  lowercased whitespace-delimited question words without the twelve stop words and in the
  set of lowercased whitespace-delimited transcript words.
\<close>

theorem relevance_before_clamp:
  "relevance_raw transcript question =
     5 + min (of_nat (card ((set (py_split (py_lower question))
                               - {''a'', ''an'', ''the'', ''is'', ''are'', ''was'', ''were'', ''in'',
                                  ''on'', ''at'', ''to'', ''for''})
                            \<inter> set (py_split (py_lower transcript)))) * (7 / 10)) 3
       + (if \<exists>w \<in> {''example'', ''instance'', ''experience'', ''project'', ''time when'',
                     ''situation''}. sublist w (py_lower transcript)
          then 3 / 2 else 0)
   \<and> (\<exists>d. analyze_text transcript question = Inr d
        \<and> get_float d ''relevance_score''
            = Some (py_round1 (clamp (relevance_raw transcript question))))"
proof -
  have ex: "list_ex (\<lambda>indicator. py_in indicator (py_lower transcript)) example_indicators
      \<longleftrightarrow> (\<exists>w \<in> {''example'', ''instance'', ''experience'', ''project'', ''time when'',
                     ''situation''}. sublist w (py_lower transcript))"
    by (simp add: list_ex_iff example_indicators_def py_in_sublist)
  have formula: "relevance_raw transcript question =
     5 + min (of_nat (card ((set (py_split (py_lower question))
                               - {''a'', ''an'', ''the'', ''is'', ''are'', ''was'', ''were'', ''in'',
                                  ''on'', ''at'', ''to'', ''for''})
                            \<inter> set (py_split (py_lower transcript)))) * (7 / 10)) 3
       + (if \<exists>w \<in> {''example'', ''instance'', ''experience'', ''project'', ''time when'',
                     ''situation''}. sublist w (py_lower transcript)
          then 3 / 2 else 0)"
    unfolding relevance_raw_def Let_def ex overlap_def common_words_def
    by simp
  let ?d = "projr (analyze_text transcript question)"
  have "analyze_text transcript question = Inr ?d"
    by (simp add: analyze_text_eq)
  moreover have "get_float ?d ''relevance_score''
      = Some (py_round1 (clamp (relevance_raw transcript question)))"
    by (simp add: analyze_text_eq get_float_def)
  ultimately have "\<exists>d. analyze_text transcript question = Inr d
        \<and> get_float d ''relevance_score''
            = Some (py_round1 (clamp (relevance_raw transcript question)))"
    by (intro exI [of _ ?d] conjI)
  with formula show ?thesis
    by (rule conjI)
qed

lemma feedback_of_default:
  "feedback_of t c r avg = [''Excellent response! Keep up the good work.'']
     \<longleftrightarrow> (6 \<le> c \<and> c \<le> 8 \<and> fillers t \<le> 5 \<and> 10 \<le> avg \<and> avg \<le> 25
          \<and> structure_count t \<noteq> 0 \<and> 6 \<le> r \<and> 50 \<le> word_count t \<and> word_count t \<le> 200
          \<and> list_ex (\<lambda>word. py_in word (py_lower t)) star_words)"
  unfolding feedback_of_def Let_def
  by (simp split: if_splits)

lemma feedback_of_fillers:
  "5 < fillers t \<Longrightarrow>
     ''Reduce filler words (um, uh, like) for better clarity'' \<in> set (feedback_of t c r avg)"
  unfolding feedback_of_def Let_def
  by simp

text \<open>
  C7. The feedback list of the result is never empty. When none of the conditions of lines
  113 to 142 holds, and only then, it is the single default message of praise. In particular
  \<open>analyze_text\<close> on two empty strings returns a word count of 0, a sentence count of 0
  and a non-empty feedback list.
\<close>

theorem feedback_never_empty:
  "(\<exists>d f avg. analyze_text transcript question = Inr d
       \<and> avg_words_per_sentence transcript = Inr avg
       \<and> get_list d ''feedback'' = Some f \<and> f \<noteq> []
       \<and> (f = [''Excellent response! Keep up the good work.'']) =
           (6 \<le> confidence_raw transcript \<and> confidence_raw transcript \<le> 8
            \<and> fillers transcript \<le> 5 \<and> 10 \<le> avg \<and> avg \<le> 25
            \<and> structure_count transcript \<noteq> 0 \<and> 6 \<le> relevance_raw transcript question
            \<and> 50 \<le> word_count transcript \<and> word_count transcript \<le> 200
            \<and> list_ex (\<lambda>word. py_in word (py_lower transcript)) star_words))
   \<and> (\<exists>d f. analyze_text '''' '''' = Inr d
       \<and> get_int d ''word_count'' = Some 0 \<and> get_int d ''sentence_count'' = Some 0
       \<and> get_list d ''feedback'' = Some f \<and> f \<noteq> [])"
proof -
  have general: "\<exists>d f avg. analyze_text t q = Inr d
       \<and> avg_words_per_sentence t = Inr avg
       \<and> get_list d ''feedback'' = Some f \<and> f \<noteq> []
       \<and> (f = [''Excellent response! Keep up the good work.'']) =
           (6 \<le> confidence_raw t \<and> confidence_raw t \<le> 8
            \<and> fillers t \<le> 5 \<and> 10 \<le> avg \<and> avg \<le> 25
            \<and> structure_count t \<noteq> 0 \<and> 6 \<le> relevance_raw t q
            \<and> 50 \<le> word_count t \<and> word_count t \<le> 200
            \<and> list_ex (\<lambda>word. py_in word (py_lower t)) star_words)" for t q
  proof -
    let ?avg = "of_int (word_count t) / of_int (max (sentence_count t) 1) :: rat"
    let ?d = "projr (analyze_text t q)"
    let ?f = "feedback_of t (confidence_raw t) (relevance_raw t q) ?avg"
    have cc: "clamp (confidence_raw t) = confidence_raw t"
      using confidence_raw_bounds [of t] by (intro clamp_id) auto
    have cr: "clamp (relevance_raw t q) = relevance_raw t q"
      using relevance_raw_bounds [of t q] by (intro clamp_id) auto
    have d: "analyze_text t q = Inr ?d"
      by (simp add: analyze_text_eq)
    have f: "get_list ?d ''feedback'' = Some ?f"
      by (simp add: analyze_text_eq get_list_def cc cr)
    have n: "?f \<noteq> []"
      by (rule feedback_of_nonempty)
    note p = feedback_of_default [of t "confidence_raw t" "relevance_raw t q" ?avg]
    from d avg_words_per_sentence_eq [of t] f n p show ?thesis
      by (intro exI [of _ ?d] exI [of _ ?f] exI [of _ ?avg] conjI)
  qed
  have w: "word_count [] = 0"
    by (simp add: word_count_def py_split_def)
  have s: "sentence_count [] = 0"
    by (simp add: sentence_count_def py_split_sep_def py_strip_def)
  have empty: "\<exists>d f. analyze_text [] [] = Inr d
       \<and> get_int d ''word_count'' = Some 0 \<and> get_int d ''sentence_count'' = Some 0
       \<and> get_list d ''feedback'' = Some f \<and> f \<noteq> []"
    by (intro exI [of _ "projr (analyze_text [] [])"]
          exI [of _ "feedback_of [] (clamp (confidence_raw [])) (clamp (relevance_raw [] []))
            (of_int (word_count []) / of_int (max (sentence_count []) 1))"] conjI)
       (simp_all add: analyze_text_eq get_int_def get_list_def w s feedback_of_nonempty)
  from general [of transcript question] empty show ?thesis
    by (rule conjI)
qed

text \<open>
  C6. A transcript with exactly 6 occurrences of the fillers gets the message about filler
  words, and its clarity score is exactly 1.8 below the clarity score of every filler-free
  transcript that has as many structure words and whose average of words per sentence is on
  the same side of the band from 12 to 22: the two other terms of the clarity score are then
  the same. Taking the fillers out of a transcript changes its word count, so the band is a
  condition.
\<close>

theorem six_fillers_clarity:
  assumes "fillers T = 6" and "fillers T' = 0"
    and "structure_count T' = structure_count T"
    and "avg_words_per_sentence T = Inr a" and "avg_words_per_sentence T' = Inr a'"
    and "(12 \<le> a \<and> a \<le> 22) = (12 \<le> a' \<and> a' \<le> 22)"
  shows "\<exists>d d' f l l'. analyze_text T Q = Inr d \<and> analyze_text T' Q' = Inr d'
     \<and> get_list d ''feedback'' = Some f
     \<and> ''Reduce filler words (um, uh, like) for better clarity'' \<in> set f
     \<and> get_float d ''clarity_score'' = Some l \<and> get_float d' ''clarity_score'' = Some l'
     \<and> l = l' - 9 / 5"
proof -
  let ?avg = "\<lambda>t. of_int (word_count t) / of_int (max (sentence_count t) 1) :: rat"
  have a: "a = ?avg T" and a': "a' = ?avg T'"
    using assms(4,5) by (simp_all add: avg_words_per_sentence_eq)
  have round: "py_round1 (clamp (clarity_raw t (?avg t))) = clarity_raw t (?avg t)" for t
  proof -
    have "clamp (clarity_raw t (?avg t)) = clarity_raw t (?avg t)"
      using clarity_raw_bounds [of t "?avg t"] by (intro clamp_id) auto
    then show ?thesis
      using clarity_raw_tenth [of t "?avg t"] by (metis py_round1_tenth)
  qed
  have diff: "clarity_raw T (?avg T) = clarity_raw T' (?avg T') - 9 / 5"
    using assms(1,2,3,6) unfolding a a' clarity_raw_def Let_def by simp
  let ?d = "projr (analyze_text T Q)" and ?d' = "projr (analyze_text T' Q')"
  let ?f = "feedback_of T (clamp (confidence_raw T)) (clamp (relevance_raw T Q)) (?avg T)"
  have d: "analyze_text T Q = Inr ?d" "analyze_text T' Q' = Inr ?d'"
    by (simp_all add: analyze_text_eq)
  have f: "get_list ?d ''feedback'' = Some ?f"
    by (simp add: analyze_text_eq get_list_def)
  have m: "''Reduce filler words (um, uh, like) for better clarity'' \<in> set ?f"
    using assms(1) by (intro feedback_of_fillers) simp
  have l: "get_float ?d ''clarity_score'' = Some (clarity_raw T (?avg T))"
    "get_float ?d' ''clarity_score'' = Some (clarity_raw T' (?avg T'))"
    by (simp_all add: analyze_text_eq get_float_def round)
  from d f m l diff show ?thesis
    by (intro exI [of _ ?d] exI [of _ ?d'] exI [of _ ?f] exI [of _ "clarity_raw T (?avg T)"]
          exI [of _ "clarity_raw T' (?avg T')"] conjI)
qed

text \<open>
  The conditions hold for a transcript of six fillers and one word and the transcript of
  that word alone.
\<close>

theorem six_fillers_clarity_witness:
  "fillers ''um um um um um um well'' = 6 \<and> fillers ''well'' = 0
   \<and> (\<exists>d d' f l l'. analyze_text ''um um um um um um well'' ''How are you?'' = Inr d
        \<and> analyze_text ''well'' ''How are you?'' = Inr d'
        \<and> get_list d ''feedback'' = Some f
        \<and> ''Reduce filler words (um, uh, like) for better clarity'' \<in> set f
        \<and> get_float d ''clarity_score'' = Some l \<and> get_float d' ''clarity_score'' = Some l'
        \<and> l = l' - 9 / 5)"
proof -
  have h1: "fillers ''um um um um um um well'' = 6" by code_simp
  have h2: "fillers ''well'' = 0" by code_simp
  have h3: "structure_count ''well'' = structure_count ''um um um um um um well''" by code_simp
  have h4: "avg_words_per_sentence ''um um um um um um well'' = Inr 7" by code_simp
  have h5: "avg_words_per_sentence ''well'' = Inr 1" by code_simp
  have h6: "(12 \<le> (7::rat) \<and> (7::rat) \<le> 22) = (12 \<le> (1::rat) \<and> (1::rat) \<le> 22)" by simp
  from h1 h2 six_fillers_clarity [OF h1 h2 h3 h4 h5 h6, of "''How are you?''" "''How are you?''"]
  show ?thesis by (intro conjI)
qed

text \<open>
  Without the condition on the band the difference is not 1.8: six fillers in front of
  six words bring the average of the one sentence from 6 to 12, into the band, and the clarity
  score is 5.2 where the six words alone score 5.
\<close>

theorem six_fillers_baseline_counterexample:
  "fillers ''um um um um um um a b c d e f'' = 6 \<and> fillers ''a b c d e f'' = 0
   \<and> score_fields (analyze_text ''um um um um um um a b c d e f'' '''')
       = Some (Some 4, Some (26 / 5), Some 5)
   \<and> score_fields (analyze_text ''a b c d e f'' '''') = Some (Some 4, Some 5, Some 5)
   \<and> ''um um um um um um a b c d e f'' = ''um um um um um um '' @ ''a b c d e f''
   \<and> (26 / 5 :: rat) \<noteq> 5 - 9 / 5"
  by code_simp

lemma py_round1_int: "py_round1 (of_int k) = of_int k"
  using py_round1_tenth [of "k * 10"] by simp

text \<open>
  C9. For every input \<open>mock_analysis\<close> returns a dictionary with the fields
  \<open>confidence_score\<close>, \<open>clarity_score\<close>, \<open>relevance_score\<close>, \<open>word_count\<close> and
  \<open>feedback\<close>, in this order: the three scores lie between 0 and 10 (the confidence
  between 5 and 10, the clarity 7 or 8, the relevance 6 or 8), the word count is the one
  \<open>analyze_text\<close> reports and the feedback list is not empty. It has no field
  \<open>sentence_count\<close>, which the result of \<open>analyze_text\<close> has.
\<close>

theorem mock_analysis_contract:
  "\<exists>c l r f. mock_analysis transcript question =
       [(''confidence_score'', PyFloat c), (''clarity_score'', PyFloat l),
        (''relevance_score'', PyFloat r), (''word_count'', PyInt (word_count transcript)),
        (''feedback'', PyStrList f)]
     \<and> 5 \<le> c \<and> c \<le> 10 \<and> (l = 7 \<or> l = 8) \<and> (r = 6 \<or> r = 8) \<and> f \<noteq> []
     \<and> get_int (mock_analysis transcript question) ''sentence_count'' = None
     \<and> (\<exists>d. analyze_text transcript question = Inr d
          \<and> get_int d ''word_count'' = Some (word_count transcript)
          \<and> get_int d ''sentence_count'' = Some (sentence_count transcript))"
proof -
  let ?x = "min 10 (max 5 (of_int (word_count transcript) / 15)) :: rat"
  let ?l = "min 10 (7 + (if 2 < length (py_split_sep (CHR ''.'') transcript) then 1 else 0)) :: rat"
  let ?r = "min 10 (6 + (if list_ex (\<lambda>word. py_in word (py_lower transcript))
                              (py_split (py_lower question)) then 2 else 0)) :: rat"
  let ?f = "(if word_count transcript < 30
             then [''Try to provide more detailed responses (aim for 50-150 words)'']
             else if 200 < word_count transcript
             then [''Consider being more concise in your answers'']
             else [''Good response length!''])
            @ [''Good structure and delivery'',
               ''Consider using the STAR method (Situation, Task, Action, Result)'',
               ''Practice maintaining confident tone throughout'']"
  have m: "mock_analysis transcript question =
       [(''confidence_score'', PyFloat (py_round1 ?x)), (''clarity_score'', PyFloat (py_round1 ?l)),
        (''relevance_score'', PyFloat (py_round1 ?r)), (''word_count'', PyInt (word_count transcript)),
        (''feedback'', PyStrList ?f)]"
    by (simp add: mock_analysis_def Let_def)
  have x5: "5 \<le> ?x" and x10: "?x \<le> 10"
    by simp_all
  have "0 \<le> ?x" using x5 by linarith
  then have c10: "py_round1 ?x \<le> 10"
    using py_round1_range [of ?x] x10 by blast
  have c5: "5 \<le> py_round1 ?x"
  proof -
    have "of_int 50 \<le> ?x * 10" using x5 by simp
    then have f: "50 \<le> \<lfloor>?x * 10\<rfloor>" by (simp only: le_floor_iff)
    then have "(50::rat) \<le> of_int \<lfloor>?x * 10\<rfloor>"
      by (metis of_int_le_iff of_int_numeral)
    then show ?thesis
      unfolding py_round1_def Let_def by (auto split: if_splits)
  qed
  have l: "py_round1 ?l = 7 \<or> py_round1 ?l = 8"
    using py_round1_int [of 7] py_round1_int [of 8] by simp
  have r: "py_round1 ?r = 6 \<or> py_round1 ?r = 8"
    using py_round1_int [of 6] py_round1_int [of 8] by simp
  have f: "?f \<noteq> []"
    by simp
  have n: "get_int (mock_analysis transcript question) ''sentence_count'' = None"
    unfolding m by (simp add: get_int_def)
  let ?d = "projr (analyze_text transcript question)"
  have "analyze_text transcript question = Inr ?d"
    "get_int ?d ''word_count'' = Some (word_count transcript)"
    "get_int ?d ''sentence_count'' = Some (sentence_count transcript)"
    by (simp_all add: analyze_text_eq get_int_def)
  then have b: "\<exists>d. analyze_text transcript question = Inr d
          \<and> get_int d ''word_count'' = Some (word_count transcript)
          \<and> get_int d ''sentence_count'' = Some (sentence_count transcript)"
    by (intro exI [of _ ?d] conjI)
  from m c5 c10 l r f n b show ?thesis
    by (intro exI [of _ "py_round1 ?x"] exI [of _ "py_round1 ?l"] exI [of _ "py_round1 ?r"]
          exI [of _ ?f] conjI)
qed

text \<open>
  The two results do not have the same fields: on the same input the mock result has five
  fields and lacks \<open>sentence_count\<close>, the backend result has six.
\<close>

theorem mock_analysis_counterexample:
  "map fst (mock_analysis ''Hello there.'' ''Who are you?'')
     = [''confidence_score'', ''clarity_score'', ''relevance_score'', ''word_count'', ''feedback'']
   \<and> map_of (mock_analysis ''Hello there.'' ''Who are you?'') ''sentence_count'' = None
   \<and> map_option (map fst) (case analyze_text ''Hello there.'' ''Who are you?'' of
        Inl e \<Rightarrow> None | Inr d \<Rightarrow> Some d)
     = Some [''confidence_score'', ''clarity_score'', ''relevance_score'', ''word_count'',
             ''sentence_count'', ''feedback'']"
  by (simp add: mock_analysis_def Let_def analyze_text_eq)

section \<open>Uppercasing the inputs\<close>

lemma upper_char_space: "isspace c \<Longrightarrow> upper_char c = Some [c]"
  by (auto simp: upper_char_def isspace_def Let_def)

lemma upper_char_nonspace:
  "\<not> isspace c \<Longrightarrow> upper_char c = Some u \<Longrightarrow> x \<in> set u \<Longrightarrow> \<not> isspace x"
  by (auto simp: upper_char_def isspace_def Let_def split: if_splits)

lemma upper_char_nonempty: "upper_char c = Some u \<Longrightarrow> u \<noteq> []"
  by (auto simp: upper_char_def Let_def split: if_splits)

lemma upper_char_period: "upper_char (CHR ''.'') = Some [CHR ''.'']"
  by (simp add: upper_char_def)

lemma upper_char_no_period:
  assumes "c \<noteq> CHR ''.''" and "upper_char c = Some u"
  shows "CHR ''.'' \<notin> set u"
proof -
  have "(of_char c :: nat) \<noteq> of_char (CHR ''.'')"
    using assms(1) by (simp only: of_char_eq_iff not_False_eq_True)
  then have "of_char c \<noteq> (46::nat)"
    by simp
  then have "of_char x \<noteq> (46::nat)" if "x \<in> set u" for x
    using that assms(2) by (auto simp: upper_char_def Let_def split: if_splits)
  then show ?thesis
    by fastforce
qed

lemma py_upper_Cons:
  "py_upper (c # cs) = Some t \<longleftrightarrow>
     (\<exists>u r. upper_char c = Some u \<and> py_upper cs = Some r \<and> t = u @ r)"
  by (auto split: option.splits)

lemma split_ws_nonspace_append:
  "\<forall>x\<in>set u. \<not> isspace x \<Longrightarrow> split_ws (u @ s) w = split_ws s (w @ u)"
  by (induction u arbitrary: w) simp_all

lemma length_split_ws_upper:
  "py_upper s = Some s' \<Longrightarrow> (w = [] \<longleftrightarrow> w' = []) \<Longrightarrow>
     length (split_ws s' w') = length (split_ws s w)"
proof (induction s arbitrary: s' w w')
  case Nil
  then show ?case by simp
next
  case (Cons c cs)
  from Cons.prems(1) obtain u r
    where u: "upper_char c = Some u" and r: "py_upper cs = Some r" and s': "s' = u @ r"
    unfolding py_upper_Cons by blast
  show ?case
  proof (cases "isspace c")
    case True
    then have "u = [c]"
      using u by (simp add: upper_char_space)
    then show ?thesis
      using True Cons.prems(2) Cons.IH [OF r, of "[]" "[]"] s' by simp
  next
    case False
    then have n: "\<forall>x\<in>set u. \<not> isspace x"
      using u upper_char_nonspace by blast
    have "length (split_ws r (w' @ u)) = length (split_ws cs (w @ [c]))"
      using upper_char_nonempty [OF u] by (intro Cons.IH [OF r]) simp
    then show ?thesis
      using False n s' by (simp add: split_ws_nonspace_append)
  qed
qed

lemma word_count_upper: "py_upper t = Some t' \<Longrightarrow> word_count t' = word_count t"
  using length_split_ws_upper [of t t' "[]" "[]"]
  by (simp add: word_count_def py_split_def)

lemma nonspace_upper_char:
  assumes "upper_char c = Some u"
  shows "list_ex (\<lambda>x. \<not> isspace x) u = (\<not> isspace c)"
proof (cases "isspace c")
  case True
  then have "u = [c]"
    using assms by (simp add: upper_char_space)
  then show ?thesis
    using True by simp
next
  case False
  obtain x xs where "u = x # xs"
    using upper_char_nonempty [OF assms] by (cases u) auto
  then show ?thesis
    using False upper_char_nonspace [OF False assms, of x] by simp
qed

lemma sentences_split_on_upper:
  "py_upper s = Some s' \<Longrightarrow>
   list_ex (\<lambda>x. \<not> isspace x) w' = list_ex (\<lambda>x. \<not> isspace x) w \<Longrightarrow>
     length (filter (list_ex (\<lambda>x. \<not> isspace x)) (split_on (CHR ''.'') s' w'))
       = length (filter (list_ex (\<lambda>x. \<not> isspace x)) (split_on (CHR ''.'') s w))"
proof (induction s arbitrary: s' w w')
  case Nil
  then show ?case by simp
next
  case (Cons c cs)
  from Cons.prems(1) obtain u r
    where u: "upper_char c = Some u" and r: "py_upper cs = Some r" and s': "s' = u @ r"
    unfolding py_upper_Cons by blast
  show ?case
  proof (cases "c = CHR ''.''")
    case True
    then have "u = [CHR ''.'']"
      using u by (simp add: upper_char_period)
    then show ?thesis
      using True Cons.prems(2) Cons.IH [OF r, of "[]" "[]"] s' by simp
  next
    case False
    then have "CHR ''.'' \<notin> set u"
      using u by (rule upper_char_no_period)
    then have "split_on (CHR ''.'') (u @ r) w' = split_on (CHR ''.'') r (w' @ u)"
      by (rule split_on_append)
    moreover have "length (filter (list_ex (\<lambda>x. \<not> isspace x)) (split_on (CHR ''.'') r (w' @ u)))
        = length (filter (list_ex (\<lambda>x. \<not> isspace x)) (split_on (CHR ''.'') cs (w @ [c])))"
      using Cons.prems(2) nonspace_upper_char [OF u]
      by (intro Cons.IH [OF r]) (simp add: list_ex_append)
    ultimately show ?thesis
      using False s' by simp
  qed
qed

lemma sentence_count_upper: "py_upper t = Some t' \<Longrightarrow> sentence_count t' = sentence_count t"
  using sentences_split_on_upper [of t t' "[]" "[]"]
  by (simp add: sentence_count_def py_split_sep_def py_strip_nonempty)

lemma lower_upper_char_ascii:
  "of_char c < (128::nat) \<Longrightarrow> \<exists>u. upper_char c = Some u \<and> map lower_char u = [lower_char c]"
  by (auto simp: upper_char_def lower_char_def Let_def)

lemma lower_upper_ascii:
  "\<forall>c\<in>set s. of_char c < (128::nat) \<Longrightarrow>
     \<exists>s'. py_upper s = Some s' \<and> py_lower s' = py_lower s"
proof (induction s)
  case Nil
  show ?case by (simp add: py_lower_def)
next
  case (Cons c cs)
  then obtain r where r: "py_upper cs = Some r" "py_lower r = py_lower cs"
    by auto
  from Cons.prems obtain u where u: "upper_char c = Some u" "map lower_char u = [lower_char c]"
    using lower_upper_char_ascii [of c] by auto
  from r u show ?case
    by (simp add: py_lower_def)
qed

text \<open>
  C8. For a transcript and a question whose lowercase form is the same whether or not they
  are uppercased first, which is so for every string of ASCII characters
  (\<open>lower_upper_ascii\<close>), the three score fields of \<open>analyze_text\<close> are the same on the
  uppercased inputs as on the inputs themselves.
\<close>

theorem scores_invariant_under_upper:
  assumes "py_upper T = Some T'" and "py_upper Q = Some Q'"
    and "py_lower T' = py_lower T" and "py_lower Q' = py_lower Q"
  shows "score_fields (analyze_text T' Q') = score_fields (analyze_text T Q)"
proof -
  note w = word_count_upper [OF assms(1)] and s = sentence_count_upper [OF assms(1)]
  have c: "confidence_raw T' = confidence_raw T"
    unfolding confidence_raw_def confidence_count_def hedging_count_def assms(3) w
    by (rule refl)
  have l: "clarity_raw T' avg = clarity_raw T avg" for avg
    unfolding clarity_raw_def fillers_def structure_count_def assms(3)
    by (rule refl)
  have r: "relevance_raw T' Q' = relevance_raw T Q"
    unfolding relevance_raw_def overlap_def assms(3,4)
    by (rule refl)
  show ?thesis
    unfolding analyze_text_eq c l r w s
    by (simp add: score_fields_def get_float_def)
qed

text \<open>The condition holds for a transcript and a question of mixed case.\<close>

theorem scores_invariant_under_upper_witness:
  "py_upper ''I MIGHT be Confident.'' = Some ''I MIGHT BE CONFIDENT.''
   \<and> py_upper ''Are you sure?'' = Some ''ARE YOU SURE?''
   \<and> py_lower ''I MIGHT BE CONFIDENT.'' = py_lower ''I MIGHT be Confident.''
   \<and> py_lower ''ARE YOU SURE?'' = py_lower ''Are you sure?''
   \<and> score_fields (analyze_text ''I MIGHT BE CONFIDENT.'' ''ARE YOU SURE?'')
       = score_fields (analyze_text ''I MIGHT be Confident.'' ''Are you sure?'')"
proof -
  have t: "py_upper ''I MIGHT be Confident.'' = Some ''I MIGHT BE CONFIDENT.''"
    by code_simp
  have q: "py_upper ''Are you sure?'' = Some ''ARE YOU SURE?''"
    by code_simp
  have lt: "py_lower ''I MIGHT BE CONFIDENT.'' = py_lower ''I MIGHT be Confident.''"
    by code_simp
  have lq: "py_lower ''ARE YOU SURE?'' = py_lower ''Are you sure?''"
    by code_simp
  from t q lt lq scores_invariant_under_upper [OF t q lt lq] show ?thesis
    by (intro conjI)
qed

text \<open>
  It fails without the condition. Uppercasing turns the sharp s (U+00DF) into \<open>SS\<close>, whose
  lowercase is \<open>ss\<close>: the transcript of that one letter shares no word with the question
  \<open>ss\<close> and has relevance 5, and the uppercased pair shares one word and has relevance 5.7.
\<close>

theorem upper_sharp_s_counterexample:
  "py_upper [CHR 0xDF] = Some ''SS'' \<and> py_upper ''ss'' = Some ''SS''
   \<and> score_fields (analyze_text [CHR 0xDF] ''ss'') = Some (Some 4, Some 5, Some 5)
   \<and> score_fields (analyze_text ''SS'' ''SS'') = Some (Some 4, Some 5, Some (57 / 10))"
  by code_simp

end
